theory Spec2Isabelle
  imports Complex_Main "HOL-Library.AList"
begin

section \<open>The icon renderer of ANIE (create\_icon\_set.py)\<close>

text \<open>
  The script draws the application icon with the imaging library (PIL) and writes an
  icon set with its manifest. The embedding follows \<open>create_icon_set.py\<close> line by line.
  What the imaging library and the operating system do is not part of the script; it is
  modelled as follows.
  \<^item> An image is its size together with the list of drawing calls made on it, in order
    (a display list); rasterisation itself is the library's.
  \<^item> Which font files load, and the bounding box the library measures for a text in a
    font, are parameters (the record \<open>pil\<close>).
  \<^item> The file system is a list of directories and an association list of files; every
    call that touches it, and every font loader that is tried, is also appended to a
    trace of events.
  \<^item> An exception is the \<open>Inl\<close> of a sum type.
\<close>

subsection \<open>Python values\<close>

datatype error =
    ValueError
  | KeyError
  | ZeroDivisionError
  | FileExistsError
  | NotADirectoryError
  | IsADirectoryError
  | FileNotFoundError
  | OverflowError
  | MemoryError

text \<open>
  \<open>int(x)\<close> of a float truncates toward zero. The floats of the script are
  \<open>size / 1024\<close> and its products with constants below 512. They are computed only
  after \<open>Image.new\<close> has accepted the size, and for every size it accepts they are exact in
  double precision (lemma \<open>accepted_size_is_double\<close> below), so they are modelled by
  rationals.
\<close>

definition py_int :: "rat \<Rightarrow> int" where
  "py_int q = (if 0 \<le> q then \<lfloor>q\<rfloor> else \<lceil>q\<rceil>)"

text \<open>\<open>str(n)\<close> of an integer.\<close>

fun str_nat :: "nat \<Rightarrow> string" where
  "str_nat n =
     (if n < 10 then [''0123456789'' ! n]
      else str_nat (n div 10) @ [''0123456789'' ! (n mod 10)])"

definition py_str :: "int \<Rightarrow> string" where
  "py_str n = (if n < 0 then CHR ''-'' # str_nat (nat (- n)) else str_nat (nat n))"

text \<open>
  \<open>int(s)\<close> of a string, for the plain digit strings the script applies it to; any
  other character raises ValueError in the model.
\<close>

definition digit_val :: "char \<Rightarrow> int option" where
  "digit_val c =
     map_of [(CHR ''0'', 0), (CHR ''1'', 1), (CHR ''2'', 2), (CHR ''3'', 3), (CHR ''4'', 4),
             (CHR ''5'', 5), (CHR ''6'', 6), (CHR ''7'', 7), (CHR ''8'', 8), (CHR ''9'', 9)] c"

fun parse_digits :: "int \<Rightarrow> string \<Rightarrow> error + int" where
  "parse_digits acc [] = Inr acc"
| "parse_digits acc (c # cs) =
     (case digit_val c of
        None \<Rightarrow> Inl ValueError
      | Some d \<Rightarrow> parse_digits (10 * acc + d) cs)"

definition py_int_str :: "string \<Rightarrow> error + int" where
  "py_int_str s = (if s = [] then Inl ValueError else parse_digits 0 s)"

text \<open>\<open>s.split(c)\<close> for a one-character separator: never the empty list.\<close>

fun split_on :: "char \<Rightarrow> string \<Rightarrow> string list" where
  "split_on c [] = [[]]"
| "split_on c (d # s) =
     (if d = c then [] # split_on c s
      else (case split_on c s of
              [] \<Rightarrow> [[d]]
            | t # ts \<Rightarrow> (d # t) # ts))"

subsection \<open>Images, fonts and the library\<close>

type_synonym rgb = "int \<times> int \<times> int"
type_synonym rgba = "int \<times> int \<times> int \<times> int"
type_synonym bbox = "int \<times> int \<times> int \<times> int"

datatype font = FreeTypeFont string int | DefaultFont

datatype draw_op =
    RoundedRectangle bbox rgb int
  | DrawText "int \<times> int" string rgb font

record image =
  im_mode :: string
  im_width :: int
  im_height :: int
  im_background :: rgba
  im_ops :: "draw_op list"

record pil =
  font_loads :: "string \<Rightarrow> int \<Rightarrow> bool"
  text_bbox :: "font \<Rightarrow> string \<Rightarrow> bbox"

record icon_entry =
  e_size :: string
  e_idiom :: string
  e_filename :: string
  e_scale :: string

record contents =
  images :: "icon_entry list"
  info_author :: string
  info_version :: int

datatype file_data = PngFile image | JsonFile contents

datatype event =
    FontLoad string int
  | FontDefault
  | MakeDir string
  | WriteFile string file_data

record world =
  dirs :: "string list"
  files :: "(string \<times> file_data) list"
  stdout :: "string list"
  events :: "event list"

text \<open>
  \<open>Image.new(mode, (w, h), color)\<close>: the library refuses a negative side (ValueError).
  It takes the sides as C integers, so a side above \<open>int_max\<close> raises OverflowError, and
  its storage refuses a row of more than \<open>int_max div 4 - 1\<close> pixels (MemoryError). Within
  these bounds the allocation is taken to succeed.
\<close>

definition int_max :: int where
  "int_max = 2 ^ 31 - 1"

definition max_side :: int where
  "max_side = int_max div 4 - 1"

definition Image_new :: "string \<Rightarrow> int \<times> int \<Rightarrow> rgba \<Rightarrow> error + image" where
  "Image_new m sz color =
     (if fst sz < 0 \<or> snd sz < 0 then Inl ValueError
      else if int_max < fst sz \<or> int_max < snd sz then Inl OverflowError
      else if max_side < fst sz then Inl MemoryError
      else Inr \<lparr>im_mode = m, im_width = fst sz, im_height = snd sz,
                im_background = color, im_ops = []\<rparr>)"

definition rounded_rectangle :: "bbox \<Rightarrow> rgb \<Rightarrow> int \<Rightarrow> image \<Rightarrow> image" where
  "rounded_rectangle xy fill radius img =
     img\<lparr>im_ops := im_ops img @ [RoundedRectangle xy fill radius]\<rparr>"

definition draw_text :: "int \<times> int \<Rightarrow> string \<Rightarrow> rgb \<Rightarrow> font \<Rightarrow> image \<Rightarrow> image" where
  "draw_text xy s fill fnt img = img\<lparr>im_ops := im_ops img @ [DrawText xy s fill fnt]\<rparr>"

text \<open>
  \<open>ImageFont.truetype(path, size)\<close> raises when the font does not load (None here);
  \<open>ImageFont.load_default()\<close> always returns the built-in font. Both leave their
  attempt in the trace.
\<close>

definition truetype :: "pil \<Rightarrow> string \<Rightarrow> int \<Rightarrow> world \<Rightarrow> font option \<times> world" where
  "truetype lib path fs w =
     (if font_loads lib path fs then Some (FreeTypeFont path fs) else None,
      w\<lparr>events := events w @ [FontLoad path fs]\<rparr>)"

definition load_default :: "world \<Rightarrow> font \<times> world" where
  "load_default w = (DefaultFont, w\<lparr>events := events w @ [FontDefault]\<rparr>)"

subsection \<open>create\_anie\_icon\<close>

definition scale_factor :: "int \<Rightarrow> rat" where
  "scale_factor sz = of_int sz / 1024"

definition inset :: "int \<Rightarrow> int" where
  "inset sz = py_int (60 * scale_factor sz)"

definition corner_radius :: "int \<Rightarrow> int" where
  "corner_radius sz = py_int (100 * scale_factor sz)"

definition font_size :: "int \<Rightarrow> int" where
  "font_size sz = py_int (400 * scale_factor sz)"

definition spacing :: "int \<Rightarrow> int" where
  "spacing sz = py_int (10 * scale_factor sz)"

definition rect_coords :: "int \<Rightarrow> bbox" where
  "rect_coords sz = (inset sz, inset sz, sz - inset sz, sz - inset sz)"

text \<open>Lines 20 to 27: the nested try/except that picks the font.\<close>

definition primary_font :: string where
  "primary_font = ''/System/Library/Fonts/Supplemental/Arial Bold.ttf''"

definition secondary_font :: string where
  "secondary_font = ''/Library/Fonts/Arial Bold.ttf''"

definition load_font :: "pil \<Rightarrow> int \<Rightarrow> world \<Rightarrow> font \<times> world" where
  "load_font lib fs w =
     (case truetype lib primary_font fs w of
        (Some f, w1) \<Rightarrow> (f, w1)
      | (None, w1) \<Rightarrow>
          (case truetype lib secondary_font fs w1 of
             (Some f, w2) \<Rightarrow> (f, w2)
           | (None, w2) \<Rightarrow> load_default w2))"

definition colors :: "char \<Rightarrow> rgb option" where
  "colors =
     map_of [(CHR ''A'', (255, 255, 255)), (CHR ''N'', (0, 144, 255)),
             (CHR ''I'', (255, 255, 255)), (CHR ''E'', (0, 144, 255))]"

definition bbox_width :: "bbox \<Rightarrow> int" where
  "bbox_width b = (case b of (x0, y0, x1, y1) \<Rightarrow> x1 - x0)"

definition bbox_height :: "bbox \<Rightarrow> int" where
  "bbox_height b = (case b of (x0, y0, x1, y1) \<Rightarrow> y1 - y0)"

text \<open>Lines 58 to 62: the loop over the letters of the top row, carrying \<open>x\<close>.\<close>

fun draw_top_row ::
  "pil \<Rightarrow> font \<Rightarrow> int \<Rightarrow> int \<Rightarrow> string \<Rightarrow> int \<Rightarrow> image \<Rightarrow> error + image" where
  "draw_top_row lib fnt sp y [] x img = Inr img"
| "draw_top_row lib fnt sp y (letter # rest) x img =
     (let letter_width = bbox_width (text_bbox lib fnt [letter])
      in case colors letter of
           None \<Rightarrow> Inl KeyError
         | Some fill \<Rightarrow>
             draw_top_row lib fnt sp y rest (x + letter_width + sp)
               (draw_text (x, y) [letter] fill fnt img))"

text \<open>Lines 36 to 78: the layout of the four letters, given the font.\<close>

definition draw_letters :: "pil \<Rightarrow> int \<Rightarrow> font \<Rightarrow> image \<Rightarrow> error + image" where
  "draw_letters lib sz fnt img =
     (let text_top = ''AN'';
          bbox_top = text_bbox lib fnt text_top;
          width_top = bbox_width bbox_top;
          height_top = bbox_height bbox_top;
          text_bottom = ''IE'';
          bbox_bottom = text_bbox lib fnt text_bottom;
          width_bottom = bbox_width bbox_bottom;
          total_height = height_top * 2 + spacing sz;
          start_y = (sz - total_height) div 2 - py_int (80 * scale_factor sz);
          x = (sz - width_top) div 2;
          y = start_y
      in case draw_top_row lib fnt (spacing sz) y text_top x img of
           Inl e \<Rightarrow> Inl e
         | Inr img1 \<Rightarrow>
             (let base_x = (sz - width_bottom) div 2;
                  y = start_y + height_top + spacing sz
              in case colors CHR ''I'' of
                   None \<Rightarrow> Inl KeyError
                 | Some fill_i \<Rightarrow>
                     (let img2 = draw_text (base_x - py_int (15 * scale_factor sz), y)
                                   ''I'' fill_i fnt img1;
                          letter_width = bbox_width (text_bbox lib fnt ''E'')
                      in case colors CHR ''E'' of
                           None \<Rightarrow> Inl KeyError
                         | Some fill_e \<Rightarrow>
                             Inr (draw_text
                                    (base_x + letter_width + spacing sz
                                       - py_int (68 * scale_factor sz), y)
                                    ''E'' fill_e fnt img2))))"

definition create_anie_icon :: "pil \<Rightarrow> int \<Rightarrow> world \<Rightarrow> (error + image) \<times> world" where
  "create_anie_icon lib sz w =
     (case Image_new ''RGBA'' (sz, sz) (0, 0, 0, 0) of
        Inl e \<Rightarrow> (Inl e, w)
      | Inr img \<Rightarrow>
          (let img1 = rounded_rectangle (rect_coords sz) (0, 0, 0) (corner_radius sz) img;
               (fnt, w1) = load_font lib (font_size sz) w
           in (draw_letters lib sz fnt img1, w1)))"

subsection \<open>The file system\<close>

text \<open>The directories \<open>os.makedirs\<close> goes through: every prefix of a relative path.\<close>

fun prefixes_from :: "string \<Rightarrow> string list \<Rightarrow> string list" where
  "prefixes_from acc [] = []"
| "prefixes_from acc (c # cs) =
     (let p = (if acc = [] then c else acc @ ''/'' @ c) in p # prefixes_from p cs)"

definition path_prefixes :: "string \<Rightarrow> string list" where
  "path_prefixes p = prefixes_from [] (split_on CHR ''/'' p)"

definition is_file :: "world \<Rightarrow> string \<Rightarrow> bool" where
  "is_file w p = (p \<in> set (map fst (files w)))"

definition is_dir :: "world \<Rightarrow> string \<Rightarrow> bool" where
  "is_dir w p = (p \<in> set (dirs w))"

text \<open>
  \<open>os.makedirs(path, exist_ok=True)\<close>: a directory that exists is left alone, a missing
  one is created, and a regular file in the way is an error (FileExistsError at the
  last component, NotADirectoryError before it).
\<close>

fun mkdir_chain :: "string list \<Rightarrow> world \<Rightarrow> (error + unit) \<times> world" where
  "mkdir_chain [] w = (Inr (), w)"
| "mkdir_chain (p # ps) w =
     (if is_dir w p then mkdir_chain ps w
      else if is_file w p then
        (Inl (if ps = [] then FileExistsError else NotADirectoryError), w)
      else mkdir_chain ps (w\<lparr>dirs := dirs w @ [p], events := events w @ [MakeDir p]\<rparr>))"

definition makedirs :: "string \<Rightarrow> world \<Rightarrow> (error + unit) \<times> world" where
  "makedirs path w = mkdir_chain (path_prefixes path) w"

definition path_join :: "string \<Rightarrow> string \<Rightarrow> string" where
  "path_join d name = d @ ''/'' @ name"

text \<open>
  Writing the file \<open>os.path.join(d, name)\<close> (\<open>icon.save(path)\<close>, and \<open>open(path, "w")\<close>
  with \<open>json.dump\<close>): the directory must exist and the path must not be a directory;
  a file already there is replaced.
\<close>

definition write_file :: "string \<Rightarrow> string \<Rightarrow> file_data \<Rightarrow> world \<Rightarrow> (error + unit) \<times> world" where
  "write_file d name f w =
     (let path = path_join d name
      in if \<not> is_dir w d then (Inl FileNotFoundError, w)
         else if is_dir w path then (Inl IsADirectoryError, w)
         else (Inr (), w\<lparr>files := AList.update path f (files w),
                           events := events w @ [WriteFile path f]\<rparr>))"

definition print :: "string \<Rightarrow> world \<Rightarrow> world" where
  "print s w = w\<lparr>stdout := stdout w @ [s]\<rparr>"

subsection \<open>create\_icon\_set\<close>

definition icon_dir :: string where
  "icon_dir = ''Assets.xcassets/AppIcon.appiconset''"

text \<open>The dictionary literal of lines 86 to 92; a dictionary iterates in insertion order.\<close>

definition icon_sizes :: "(string \<times> int list) list" where
  "icon_sizes =
     [(''16x16'', [16, 32]),
      (''32x32'', [32, 64]),
      (''128x128'', [128, 256]),
      (''256x256'', [256, 512]),
      (''512x512'', [512, 1024])]"

definition icon_filename :: "int \<Rightarrow> string" where
  "icon_filename sz = ''icon_'' @ py_str sz @ ''x'' @ py_str sz @ ''.png''"

text \<open>Lines 107 to 117: the body of the inner loop, for one pixel size.\<close>

definition icon_step ::
  "pil \<Rightarrow> string \<Rightarrow> int \<Rightarrow> int \<Rightarrow> contents \<Rightarrow> world \<Rightarrow> (error + contents) \<times> world" where
  "icon_step lib base_size width sz cts w =
     (let filename = icon_filename sz
      in case create_anie_icon lib sz w of
           (Inl e, w1) \<Rightarrow> (Inl e, w1)
         | (Inr icon, w1) \<Rightarrow>
             (case write_file icon_dir filename (PngFile icon) w1 of
                (Inl e, w2) \<Rightarrow> (Inl e, w2)
              | (Inr u, w2) \<Rightarrow>
                  if width = 0 then (Inl ZeroDivisionError, w2)
                  else (Inr (cts\<lparr>images := images cts @
                                   [\<lparr>e_size = base_size, e_idiom = ''mac'',
                                     e_filename = filename,
                                     e_scale = py_str (sz div width) @ ''x''\<rparr>]\<rparr>), w2)))"

text \<open>Line 106: \<open>for size in scales\<close>.\<close>

fun scales_loop ::
  "pil \<Rightarrow> string \<Rightarrow> int \<Rightarrow> int list \<Rightarrow> contents \<Rightarrow> world \<Rightarrow> (error + contents) \<times> world" where
  "scales_loop lib base_size width [] cts w = (Inr cts, w)"
| "scales_loop lib base_size width (sz # rest) cts w =
     (case icon_step lib base_size width sz cts w of
        (Inl e, w1) \<Rightarrow> (Inl e, w1)
      | (Inr cts1, w1) \<Rightarrow> scales_loop lib base_size width rest cts1 w1)"

text \<open>Lines 104 and 105: \<open>for base_size, scales in icon_sizes.items()\<close>.\<close>

fun sizes_loop ::
  "pil \<Rightarrow> (string \<times> int list) list \<Rightarrow> contents \<Rightarrow> world \<Rightarrow> (error + contents) \<times> world" where
  "sizes_loop lib [] cts w = (Inr cts, w)"
| "sizes_loop lib ((base_size, scales) # rest) cts w =
     (case py_int_str (hd (split_on CHR ''x'' base_size)) of
        Inl e \<Rightarrow> (Inl e, w)
      | Inr width \<Rightarrow>
          (case scales_loop lib base_size width scales cts w of
             (Inl e, w1) \<Rightarrow> (Inl e, w1)
           | (Inr cts1, w1) \<Rightarrow> sizes_loop lib rest cts1 w1))"

definition create_icon_set :: "pil \<Rightarrow> world \<Rightarrow> (error + unit) \<times> world" where
  "create_icon_set lib w =
     (case makedirs icon_dir w of
        (Inl e, w1) \<Rightarrow> (Inl e, w1)
      | (Inr u, w1) \<Rightarrow>
          (let cts = \<lparr>images = [], info_author = ''xcode'', info_version = 1\<rparr>
           in case sizes_loop lib icon_sizes cts w1 of
                (Inl e, w2) \<Rightarrow> (Inl e, w2)
              | (Inr cts1, w2) \<Rightarrow>
                  (case write_file icon_dir ''Contents.json'' (JsonFile cts1) w2 of
                     (Inl e, w3) \<Rightarrow> (Inl e, w3)
                   | (Inr u, w3) \<Rightarrow>
                       (Inr (), print ''Icon set created successfully!'' w3))))"

subsection \<open>Definitions for stating the properties\<close>

text \<open>
  A rational is a double when it is a 53-bit integer times a power of two in the
  exponent range of the format.
\<close>

definition is_double :: "rat \<Rightarrow> bool" where
  "is_double q =
     (\<exists>m e. \<bar>m\<bar> < (2::int) ^ 53 \<and> (-1074::int) \<le> e \<and> e \<le> 971 \<and> q = of_int m * 2 powi e)"

text \<open>Integer division that truncates toward zero.\<close>

definition trunc_div :: "int \<Rightarrow> int \<Rightarrow> int" where
  "trunc_div a b = (if 0 \<le> a then a div b else - ((- a) div b))"

text \<open>
  The font resolution as the specification words it: an ordered list of candidate
  loaders, evaluated until the first success. \<open>first_success\<close> returns the font of the
  first loader that succeeds and the loaders that were tried, in order.
\<close>

datatype loader = TrueType string | Default

definition run_loader :: "pil \<Rightarrow> int \<Rightarrow> loader \<Rightarrow> font option" where
  "run_loader lib fs l =
     (case l of
        TrueType path \<Rightarrow> (if font_loads lib path fs then Some (FreeTypeFont path fs) else None)
      | Default \<Rightarrow> Some DefaultFont)"

fun first_success :: "pil \<Rightarrow> int \<Rightarrow> loader list \<Rightarrow> font option \<times> loader list" where
  "first_success lib fs [] = (None, [])"
| "first_success lib fs (l # ls) =
     (case run_loader lib fs l of
        Some f \<Rightarrow> (Some f, [l])
      | None \<Rightarrow> (case first_success lib fs ls of (r, tried) \<Rightarrow> (r, l # tried)))"

definition loader_event :: "int \<Rightarrow> loader \<Rightarrow> event" where
  "loader_event fs l = (case l of TrueType path \<Rightarrow> FontLoad path fs | Default \<Rightarrow> FontDefault)"

definition font_chain :: "loader list" where
  "font_chain = [TrueType primary_font, TrueType secondary_font, Default]"

definition font_trace :: "pil \<Rightarrow> int \<Rightarrow> event list" where
  "font_trace lib fs = map (loader_event fs) (snd (first_success lib fs font_chain))"

text \<open>The image \<open>create_anie_icon\<close> returns for a size, read off a run in the empty world.\<close>

definition empty_world :: world where
  "empty_world = \<lparr>dirs = [], files = [], stdout = [], events = []\<rparr>"

definition blank :: image where
  "blank = \<lparr>im_mode = [], im_width = 0, im_height = 0, im_background = (0, 0, 0, 0),
            im_ops = []\<rparr>"

definition rendered :: "pil \<Rightarrow> int \<Rightarrow> image" where
  "rendered lib sz =
     (case fst (create_anie_icon lib sz empty_world) of Inr img \<Rightarrow> img | Inl e \<Rightarrow> blank)"

text \<open>The bounding boxes of the rounded rectangles drawn on an image, in order.\<close>

fun rectangles :: "draw_op list \<Rightarrow> bbox list" where
  "rectangles [] = []"
| "rectangles (RoundedRectangle xy fill radius # rest) = xy # rectangles rest"
| "rectangles (DrawText xy s fill fnt # rest) = rectangles rest"

text \<open>The fonts of the text drawing calls of an image, in order.\<close>

fun text_fonts :: "draw_op list \<Rightarrow> font list" where
  "text_fonts [] = []"
| "text_fonts (RoundedRectangle xy fill radius # rest) = text_fonts rest"
| "text_fonts (DrawText xy s fill fnt # rest) = fnt # text_fonts rest"

text \<open>The events of a trace that change the file system.\<close>

fun fs_events :: "event list \<Rightarrow> event list" where
  "fs_events [] = []"
| "fs_events (MakeDir p # rest) = MakeDir p # fs_events rest"
| "fs_events (WriteFile p f # rest) = WriteFile p f # fs_events rest"
| "fs_events (e # rest) = fs_events rest"

text \<open>
  Three sample libraries: no TrueType font loads; only the secondary path loads; every
  path loads. Each measures a text as a box 10 wide per character and 12 high.
\<close>

definition no_fonts :: pil where
  "no_fonts = \<lparr>font_loads = (\<lambda>path fs. False),
               text_bbox = (\<lambda>fnt s. (0, 0, 10 * int (length s), 12))\<rparr>"

definition only_secondary :: pil where
  "only_secondary = \<lparr>font_loads = (\<lambda>path fs. path = secondary_font \<and> 0 < fs),
               text_bbox = (\<lambda>fnt s. (0, 0, 10 * int (length s), 12))\<rparr>"

definition all_fonts :: pil where
  "all_fonts = \<lparr>font_loads = (\<lambda>path fs. 0 < fs),
               text_bbox = (\<lambda>fnt s. (0, 0, 10 * int (length s), 12))\<rparr>"

text \<open>The paths the run writes, and the pixel sizes of the table in iteration order.\<close>

definition icon_path :: "int \<Rightarrow> string" where
  "icon_path sz = path_join icon_dir (icon_filename sz)"

definition contents_path :: string where
  "contents_path = path_join icon_dir ''Contents.json''"

definition variant_sizes :: "int list" where
  "variant_sizes = concat (map snd icon_sizes)"

text \<open>
  The file systems on which a run meets no obstacle: no regular file stands where a
  directory of the output path is needed, and no directory where a file is written.
\<close>

definition fs_ready :: "world \<Rightarrow> bool" where
  "fs_ready w =
     (list_all (\<lambda>p. is_dir w p \<or> \<not> is_file w p) (path_prefixes icon_dir) \<and>
      list_all (\<lambda>sz. \<not> is_dir w (icon_path sz)) variant_sizes \<and>
      \<not> is_dir w contents_path)"

text \<open>What a run adds to the world: directories, files, events and manifest.\<close>

definition made_dirs :: "world \<Rightarrow> string list" where
  "made_dirs w = filter (\<lambda>p. \<not> is_dir w p) (path_prefixes icon_dir)"

definition step_files :: "pil \<Rightarrow> int \<Rightarrow> (string \<times> file_data) list \<Rightarrow> (string \<times> file_data) list" where
  "step_files lib sz fs = AList.update (icon_path sz) (PngFile (rendered lib sz)) fs"

definition step_events :: "pil \<Rightarrow> int \<Rightarrow> event list" where
  "step_events lib sz =
     font_trace lib (font_size sz) @ [WriteFile (icon_path sz) (PngFile (rendered lib sz))]"

definition entry :: "string \<Rightarrow> int \<Rightarrow> string \<Rightarrow> icon_entry" where
  "entry base sz sc = \<lparr>e_size = base, e_idiom = ''mac'', e_filename = icon_filename sz, e_scale = sc\<rparr>"

definition manifest :: contents where
  "manifest =
     \<lparr>images =
        [entry ''16x16'' 16 ''1x'', entry ''16x16'' 32 ''2x'',
         entry ''32x32'' 32 ''1x'', entry ''32x32'' 64 ''2x'',
         entry ''128x128'' 128 ''1x'', entry ''128x128'' 256 ''2x'',
         entry ''256x256'' 256 ''1x'', entry ''256x256'' 512 ''2x'',
         entry ''512x512'' 512 ''1x'', entry ''512x512'' 1024 ''2x''],
      info_author = ''xcode'', info_version = 1\<rparr>"

definition run_files :: "pil \<Rightarrow> (string \<times> file_data) list \<Rightarrow> (string \<times> file_data) list" where
  "run_files lib fs =
     AList.update contents_path (JsonFile manifest) (fold (step_files lib) variant_sizes fs)"

definition run_events :: "pil \<Rightarrow> event list" where
  "run_events lib =
     concat (map (step_events lib) variant_sizes) @ [WriteFile contents_path (JsonFile manifest)]"

text \<open>The paths of the image files in a file system.\<close>

fun image_files :: "(string \<times> file_data) list \<Rightarrow> string list" where
  "image_files [] = []"
| "image_files ((p, PngFile img) # rest) = p # image_files rest"
| "image_files ((p, JsonFile cts) # rest) = image_files rest"

text \<open>The paths of the image writes in a trace, in order.\<close>

fun image_writes :: "event list \<Rightarrow> string list" where
  "image_writes [] = []"
| "image_writes (WriteFile p (PngFile img) # rest) = p # image_writes rest"
| "image_writes (e # rest) = image_writes rest"

text \<open>What a trace writes to one path, in order.\<close>

fun writes_to :: "string \<Rightarrow> event list \<Rightarrow> file_data list" where
  "writes_to p [] = []"
| "writes_to p (WriteFile q f # rest) = (if q = p then f # writes_to p rest else writes_to p rest)"
| "writes_to p (e # rest) = writes_to p rest"

text \<open>The (size class, pixel size) pairs of the table, in iteration order.\<close>

definition variants :: "(string \<times> int) list" where
  "variants = concat (map (\<lambda>(base_size, scales). map (Pair base_size) scales) icon_sizes)"

section \<open>Properties\<close>

subsection \<open>The scaled constants\<close>

lemma py_int_scaled:
  "py_int (of_int c * scale_factor sz) =
     (if 0 \<le> c * sz then (c * sz) div 1024 else - ((- (c * sz)) div 1024))"
proof -
  have e: "(of_int c :: rat) * scale_factor sz = of_int (c * sz) / of_int 1024"
    by (simp add: scale_factor_def)
  have s: "(0 \<le> (of_int (c * sz) / of_int 1024 :: rat)) = (0 \<le> c * sz)"
    by (simp add: zero_le_divide_iff del: of_int_mult)
  have f: "\<lfloor>(of_int (c * sz) / of_int 1024 :: rat)\<rfloor> = (c * sz) div 1024"
    by (rule floor_divide_of_int_eq)
  have g: "\<lceil>(of_int (c * sz) / of_int 1024 :: rat)\<rceil> = - ((- (c * sz)) div 1024)"
  proof -
    have "- (of_int (c * sz) / of_int 1024 :: rat) = of_int (- (c * sz)) / of_int 1024"
      by simp
    then show ?thesis
      unfolding ceiling_def by (simp only: floor_divide_of_int_eq)
  qed
  show ?thesis
    unfolding e py_int_def s f g ..
qed

lemma inset_trunc: "inset sz = trunc_div (60 * sz) 1024"
  using py_int_scaled [of 60 sz] by (simp add: inset_def trunc_div_def)

lemma corner_radius_trunc: "corner_radius sz = trunc_div (100 * sz) 1024"
  using py_int_scaled [of 100 sz] by (simp add: corner_radius_def trunc_div_def)

lemma font_size_trunc: "font_size sz = trunc_div (400 * sz) 1024"
  using py_int_scaled [of 400 sz] by (simp add: font_size_def trunc_div_def)

lemma spacing_trunc: "spacing sz = trunc_div (10 * sz) 1024"
  using py_int_scaled [of 10 sz] by (simp add: spacing_def trunc_div_def)

text \<open>
  The products the script computes in floating point are doubles whenever the integer
  \<open>c * size\<close> has at most 53 bits, so no rounding happens before \<open>int\<close> truncates.
\<close>

lemma scaled_is_double:
  assumes "\<bar>c * sz\<bar> < 2 ^ 53"
  shows "is_double (of_int c * scale_factor sz)"
proof -
  have "(of_int c :: rat) * scale_factor sz = of_int (c * sz) * 2 powi (- 10)"
    by (simp add: scale_factor_def power_int_minus field_simps)
  with assms show ?thesis
    unfolding is_double_def by (intro exI [of _ "c * sz"] exI [of _ "- 10"]) simp
qed

lemma accepted_size_is_double:
  assumes "0 \<le> sz \<and> sz \<le> max_side" and "0 \<le> c \<and> c \<le> 400"
  shows "is_double (scale_factor sz) \<and> is_double (of_int c * scale_factor sz)"
proof -
  from assms have "c * sz \<le> 400 * max_side"
    by (intro mult_mono) auto
  with assms have b: "\<bar>c * sz\<bar> < 2 ^ 53" "\<bar>1 * sz\<bar> < 2 ^ 53"
    by (simp_all add: max_side_def int_max_def)
  from scaled_is_double [OF b(1)] scaled_is_double [OF b(2)] show ?thesis
    by simp
qed

subsection \<open>The font chain and the letters\<close>

lemma load_font_eq:
  "load_font lib fs w =
     (case fst (first_success lib fs font_chain) of Some f \<Rightarrow> f | None \<Rightarrow> DefaultFont,
      w\<lparr>events := events w @ font_trace lib fs\<rparr>)"
  by (simp add: load_font_def truetype_def load_default_def font_trace_def font_chain_def
      run_loader_def loader_event_def)

lemma draw_letters_ok:
  "\<exists>img'. draw_letters lib sz fnt img = Inr img' \<and> im_width img' = im_width img
      \<and> im_height img' = im_height img \<and> im_mode img' = im_mode img
      \<and> (\<exists>more. im_ops img' = im_ops img @ more)"
  by (simp add: draw_letters_def Let_def colors_def draw_text_def)

lemma fs_events_font_trace: "fs_events (font_trace lib fs) = []"
  by (simp add: font_trace_def font_chain_def run_loader_def loader_event_def)

lemma first_success_font: "\<exists>f tried. first_success lib fs font_chain = (Some f, tried)"
  by (simp add: font_chain_def run_loader_def)

lemma create_anie_icon_neg: "sz < 0 \<Longrightarrow> create_anie_icon lib sz w = (Inl ValueError, w)"
  by (simp add: create_anie_icon_def Image_new_def)

lemma max_side_int_max: "sz \<le> max_side \<Longrightarrow> \<not> int_max < sz"
  by (simp add: max_side_def int_max_def)

lemma create_anie_icon_big:
  "max_side < sz \<Longrightarrow>
     create_anie_icon lib sz w = (Inl (if int_max < sz then OverflowError else MemoryError), w)"
  by (simp add: create_anie_icon_def Image_new_def max_side_def int_max_def)

lemma create_anie_icon_Inr:
  assumes "create_anie_icon lib sz w = (Inr img, w')"
  shows "0 \<le> sz \<and> sz \<le> max_side"
proof (rule ccontr)
  assume "\<not> (0 \<le> sz \<and> sz \<le> max_side)"
  then have "sz < 0 \<or> max_side < sz"
    by auto
  with assms show False
    by (auto simp: create_anie_icon_neg create_anie_icon_big)
qed

lemma create_anie_icon_world:
  "0 \<le> sz \<and> sz \<le> max_side \<Longrightarrow> snd (create_anie_icon lib sz w) = w\<lparr>events := events w @ font_trace lib (font_size sz)\<rparr>"
  by (simp add: create_anie_icon_def Image_new_def load_font_eq Let_def max_side_int_max)

lemma create_anie_icon_image:
  "0 \<le> sz \<and> sz \<le> max_side \<Longrightarrow> \<exists>img. fst (create_anie_icon lib sz w) = Inr img \<and> im_width img = sz \<and> im_height img = sz
     \<and> rectangles (im_ops img) = [rect_coords sz]
     \<and> text_fonts (im_ops img) = replicate 4 (case fst (first_success lib (font_size sz) font_chain) of Some f \<Rightarrow> f | None \<Rightarrow> DefaultFont)"
  by (simp add: create_anie_icon_def Image_new_def load_font_eq Let_def rounded_rectangle_def
        draw_letters_def colors_def draw_text_def numeral_eq_Suc max_side_int_max)

lemma create_anie_icon_fst:
  "fst (create_anie_icon lib sz w) = fst (create_anie_icon lib sz w0)"
  by (simp add: create_anie_icon_def Image_new_def load_font_eq Let_def split: sum.splits)

lemma create_anie_icon_run:
  assumes "0 \<le> sz \<and> sz \<le> max_side"
  shows "create_anie_icon lib sz w =
           (Inr (rendered lib sz), w\<lparr>events := events w @ font_trace lib (font_size sz)\<rparr>)"
proof -
  obtain img where "fst (create_anie_icon lib sz empty_world) = Inr img"
    using create_anie_icon_image [OF assms] by blast
  then have "fst (create_anie_icon lib sz w) = Inr (rendered lib sz)"
    using create_anie_icon_fst [of lib sz w empty_world] by (simp add: rendered_def)
  then show ?thesis
    using create_anie_icon_world [OF assms, of lib w] by (simp add: prod_eq_iff)
qed

lemma trunc_div_nonneg: "0 \<le> a \<Longrightarrow> trunc_div a b = a div b"
  by (simp add: trunc_div_def)

lemma floor_scaled: "\<lfloor>of_int c * scale_factor sz\<rfloor> = (c * sz) div 1024"
proof -
  have "(of_int c :: rat) * scale_factor sz = of_int (c * sz) / of_int 1024"
    by (simp add: scale_factor_def)
  then show ?thesis
    by (simp only: floor_divide_of_int_eq)
qed

text \<open>
  C10: for every canvas size, each scaled constant is \<open>c * size / 1024\<close> truncated toward
  zero, which is the floor for a size that is not negative: the inset with \<open>c = 60\<close>, the
  corner radius with 100, the font size with 400 and the spacing with 10. At size 16 the
  inset and the spacing are both 0.
\<close>

theorem scaled_constants_truncate:
  "inset sz = trunc_div (60 * sz) 1024 \<and>
   corner_radius sz = trunc_div (100 * sz) 1024 \<and>
   font_size sz = trunc_div (400 * sz) 1024 \<and>
   spacing sz = trunc_div (10 * sz) 1024 \<and>
   (0 \<le> sz \<longrightarrow>
      inset sz = \<lfloor>60 * scale_factor sz\<rfloor> \<and> inset sz = 60 * sz div 1024 \<and>
      corner_radius sz = \<lfloor>100 * scale_factor sz\<rfloor> \<and> corner_radius sz = 100 * sz div 1024 \<and>
      font_size sz = \<lfloor>400 * scale_factor sz\<rfloor> \<and> font_size sz = 400 * sz div 1024 \<and>
      spacing sz = \<lfloor>10 * scale_factor sz\<rfloor> \<and> spacing sz = 10 * sz div 1024) \<and>
   inset 16 = 0 \<and> spacing 16 = 0"
  using floor_scaled [of 60 sz] floor_scaled [of 100 sz] floor_scaled [of 400 sz]
    floor_scaled [of 10 sz]
  by (simp add: inset_trunc corner_radius_trunc font_size_trunc spacing_trunc trunc_div_nonneg)

theorem scaled_constants_truncate_witness:
  "(0::int) \<le> 128 \<and> inset 128 = 7 \<and> corner_radius 128 = 12 \<and> font_size 128 = 50 \<and> spacing 128 = 1
     \<and> inset (- 128) = - 7"
  using scaled_constants_truncate [of 128] scaled_constants_truncate [of "- 128"]
  by (simp add: trunc_div_def)

text \<open>
  C2, as stated, fails: at size 16 the inset is 0, while the exact proportion
  \<open>60 * 16 / 1024\<close> is \<open>15 / 16\<close>.
\<close>

theorem exact_proportion_counterexample:
  "rat_of_int (inset 16) \<noteq> 60 * scale_factor 16"
  by (simp add: inset_trunc trunc_div_def scale_factor_def)

lemma scaled_exact:
  assumes "1024 dvd c * sz"
  shows "rat_of_int (trunc_div (c * sz) 1024) = of_int c * scale_factor sz"
proof -
  from assms obtain k where k: "c * sz = 1024 * k" ..
  have "(- (1024 * k)) div 1024 = - k"
    using nonzero_mult_div_cancel_left [of "1024::int" "- k"] by simp
  then have "trunc_div (c * sz) 1024 = k"
    by (simp add: trunc_div_def k)
  moreover have "(of_int c :: rat) * scale_factor sz = of_int (c * sz) / 1024"
    by (simp add: scale_factor_def)
  ultimately show ?thesis
    by (simp add: k)
qed

lemma trunc_div_bounds:
  assumes "0 \<le> a"
  shows "1024 * trunc_div a 1024 \<le> a \<and> a < 1024 * trunc_div a 1024 + 1024"
  using assms by (simp add: trunc_div_def) presburger

text \<open>
  C2, amended: the four scaled constants are exactly proportional to the size whenever the
  size is a multiple of 512; for every size that is not negative each lies less than one
  below the exact proportion \<open>c * size / 1024\<close>; at size 512 they are 30, 50, 200 and 5.
\<close>

theorem scaled_constants_proportional:
  "(512 dvd sz \<longrightarrow>
      rat_of_int (inset sz) = 60 * scale_factor sz \<and>
      rat_of_int (corner_radius sz) = 100 * scale_factor sz \<and>
      rat_of_int (font_size sz) = 400 * scale_factor sz \<and>
      rat_of_int (spacing sz) = 10 * scale_factor sz) \<and>
   (0 \<le> sz \<longrightarrow>
      1024 * inset sz \<le> 60 * sz \<and> 60 * sz < 1024 * inset sz + 1024 \<and>
      1024 * corner_radius sz \<le> 100 * sz \<and> 100 * sz < 1024 * corner_radius sz + 1024 \<and>
      1024 * font_size sz \<le> 400 * sz \<and> 400 * sz < 1024 * font_size sz + 1024 \<and>
      1024 * spacing sz \<le> 10 * sz \<and> 10 * sz < 1024 * spacing sz + 1024) \<and>
   inset 512 = 30 \<and> corner_radius 512 = 50 \<and> font_size 512 = 200 \<and> spacing 512 = 5"
proof -
  have ex: "rat_of_int (inset sz) = 60 * scale_factor sz \<and>
      rat_of_int (corner_radius sz) = 100 * scale_factor sz \<and>
      rat_of_int (font_size sz) = 400 * scale_factor sz \<and>
      rat_of_int (spacing sz) = 10 * scale_factor sz" if "512 dvd sz"
  proof -
    from that obtain k where k: "sz = 512 * k" ..
    have "1024 dvd 60 * sz" "1024 dvd 100 * sz" "1024 dvd 400 * sz" "1024 dvd 10 * sz"
      by (simp_all add: k)
    then show ?thesis
      using scaled_exact [of 60 sz] scaled_exact [of 100 sz] scaled_exact [of 400 sz]
        scaled_exact [of 10 sz]
      by (simp add: inset_trunc corner_radius_trunc font_size_trunc spacing_trunc)
  qed
  have bd: "1024 * inset sz \<le> 60 * sz \<and> 60 * sz < 1024 * inset sz + 1024 \<and>
      1024 * corner_radius sz \<le> 100 * sz \<and> 100 * sz < 1024 * corner_radius sz + 1024 \<and>
      1024 * font_size sz \<le> 400 * sz \<and> 400 * sz < 1024 * font_size sz + 1024 \<and>
      1024 * spacing sz \<le> 10 * sz \<and> 10 * sz < 1024 * spacing sz + 1024" if "0 \<le> sz"
    using that trunc_div_bounds [of "60 * sz"] trunc_div_bounds [of "100 * sz"]
      trunc_div_bounds [of "400 * sz"] trunc_div_bounds [of "10 * sz"]
    by (simp add: inset_trunc corner_radius_trunc font_size_trunc spacing_trunc)
  have v: "inset 512 = 30 \<and> corner_radius 512 = 50 \<and> font_size 512 = 200 \<and> spacing 512 = 5"
    by (simp add: inset_trunc corner_radius_trunc font_size_trunc spacing_trunc trunc_div_def)
  from ex bd v show ?thesis by blast
qed

theorem scaled_constants_proportional_witness:
  "(512::int) dvd 1024 \<and> (0::int) \<le> 1024 \<and> inset 1024 = 60 \<and> corner_radius 1024 = 100
     \<and> font_size 1024 = 400 \<and> spacing 1024 = 10"
  using scaled_constants_proportional [of 1024]
  by (simp add: scale_factor_def)

subsection \<open>The image and the font of create\_anie\_icon\<close>




text \<open>
  C4: for every canvas size, the one rounded rectangle \<open>create_anie_icon\<close> draws has the
  bounding box \<open>[inset, inset, size - inset, size - inset]\<close>. The function draws it and
  returns an image for every size the library accepts; it raises only on a negative size
  and on a size above the library's bound.
\<close>

theorem background_rectangle_bbox:
  "(case create_anie_icon lib sz w of
      (Inr img, w') \<Rightarrow>
        rectangles (im_ops img) = [(inset sz, inset sz, sz - inset sz, sz - inset sz)]
    | (Inl e, w') \<Rightarrow> sz < 0 \<or> max_side < sz)"
proof (cases "0 \<le> sz \<and> sz \<le> max_side")
  case True
  from create_anie_icon_image [OF this, of lib w]
  obtain img where "fst (create_anie_icon lib sz w) = Inr img"
    "rectangles (im_ops img) = [rect_coords sz]"
    by blast
  then show ?thesis
    by (cases "create_anie_icon lib sz w") (auto simp: rect_coords_def)
next
  case False
  then have "sz < 0 \<or> max_side < sz"
    by auto
  then show ?thesis
    by (auto simp: create_anie_icon_neg create_anie_icon_big)
qed

theorem background_rectangle_bbox_witness:
  "rectangles (im_ops (rendered no_fonts 512)) = [(30, 30, 482, 482)] \<and>
   fst (create_anie_icon no_fonts (2 ^ 31) empty_world) = Inl OverflowError"
proof -
  have ok: "(0::int) \<le> 512 \<and> 512 \<le> max_side"
    by (simp add: max_side_def int_max_def)
  have big: "create_anie_icon no_fonts (2 ^ 31) empty_world = (Inl OverflowError, empty_world)"
    by (simp add: create_anie_icon_big max_side_def int_max_def)
  from background_rectangle_bbox [where lib = no_fonts and sz = 512 and w = empty_world]
    create_anie_icon_run [OF ok, of no_fonts empty_world]
  have "rectangles (im_ops (rendered no_fonts 512)) = [(30, 30, 482, 482)]"
    by (simp add: inset_trunc trunc_div_def)
  with big show ?thesis
    by simp
qed

text \<open>
  C6: the font of \<open>create_anie_icon\<close> is resolved by the ordered chain primary path,
  secondary path, library default: the font used for the four letters is the one of the
  first loader that succeeds, and the loaders tried are exactly those up to and including
  it, in chain order, so none is tried after a success.
\<close>

theorem font_fallback_chain:
  assumes "create_anie_icon lib sz w = (Inr img, w')"
  shows "\<exists>f tried.
           first_success lib (font_size sz) font_chain = (Some f, tried) \<and>
           events w' = events w @ map (loader_event (font_size sz)) tried \<and>
           text_fonts (im_ops img) = [f, f, f, f] \<and>
           (font_loads lib primary_font (font_size sz) \<longrightarrow>
              f = FreeTypeFont primary_font (font_size sz) \<and> tried = [TrueType primary_font]) \<and>
           (\<not> font_loads lib primary_font (font_size sz) \<and>
              font_loads lib secondary_font (font_size sz) \<longrightarrow>
              f = FreeTypeFont secondary_font (font_size sz) \<and>
              tried = [TrueType primary_font, TrueType secondary_font]) \<and>
           (\<not> font_loads lib primary_font (font_size sz) \<and>
              \<not> font_loads lib secondary_font (font_size sz) \<longrightarrow>
              f = DefaultFont \<and>
              tried = [TrueType primary_font, TrueType secondary_font, Default])"
proof -
  have nn: "0 \<le> sz \<and> sz \<le> max_side"
    using assms by (rule create_anie_icon_Inr)
  obtain f tried where ft: "first_success lib (font_size sz) font_chain = (Some f, tried)"
    using first_success_font by blast
  have ev: "events w' = events w @ map (loader_event (font_size sz)) tried"
    using create_anie_icon_world [OF nn, of lib w] assms ft by (simp add: font_trace_def)
  have tf: "text_fonts (im_ops img) = [f, f, f, f]"
    using create_anie_icon_image [OF nn, of lib w] assms ft by (auto simp: numeral_eq_Suc)
  have cases:
    "(font_loads lib primary_font (font_size sz) \<longrightarrow>
        f = FreeTypeFont primary_font (font_size sz) \<and> tried = [TrueType primary_font]) \<and>
     (\<not> font_loads lib primary_font (font_size sz) \<and>
        font_loads lib secondary_font (font_size sz) \<longrightarrow>
        f = FreeTypeFont secondary_font (font_size sz) \<and>
        tried = [TrueType primary_font, TrueType secondary_font]) \<and>
     (\<not> font_loads lib primary_font (font_size sz) \<and>
        \<not> font_loads lib secondary_font (font_size sz) \<longrightarrow>
        f = DefaultFont \<and>
        tried = [TrueType primary_font, TrueType secondary_font, Default])"
    using ft by (auto simp: font_chain_def run_loader_def split: if_splits)
  from ft ev tf cases show ?thesis by blast
qed

lemma font_size_512: "font_size 512 = 200"
  by (simp add: font_size_trunc trunc_div_def)

theorem font_fallback_chain_witness:
  "create_anie_icon all_fonts 512 empty_world =
     (Inr (rendered all_fonts 512),
      empty_world\<lparr>events := [FontLoad primary_font 200]\<rparr>) \<and>
   text_fonts (im_ops (rendered all_fonts 512)) = replicate 4 (FreeTypeFont primary_font 200) \<and>
   create_anie_icon only_secondary 512 empty_world =
     (Inr (rendered only_secondary 512),
      empty_world\<lparr>events := [FontLoad primary_font 200, FontLoad secondary_font 200]\<rparr>) \<and>
   text_fonts (im_ops (rendered only_secondary 512)) =
     replicate 4 (FreeTypeFont secondary_font 200) \<and>
   create_anie_icon no_fonts 512 empty_world =
     (Inr (rendered no_fonts 512),
      empty_world\<lparr>events :=
        [FontLoad primary_font 200, FontLoad secondary_font 200, FontDefault]\<rparr>) \<and>
   text_fonts (im_ops (rendered no_fonts 512)) = replicate 4 DefaultFont"
proof -
  have ok: "(0::int) \<le> 512 \<and> 512 \<le> max_side"
    by (simp add: max_side_def int_max_def)
  have a: "create_anie_icon all_fonts 512 empty_world =
     (Inr (rendered all_fonts 512), empty_world\<lparr>events := [FontLoad primary_font 200]\<rparr>)"
    by (simp add: create_anie_icon_run [OF ok] font_size_512 font_trace_def font_chain_def
        run_loader_def loader_event_def all_fonts_def empty_world_def)
  have s: "create_anie_icon only_secondary 512 empty_world =
     (Inr (rendered only_secondary 512),
      empty_world\<lparr>events := [FontLoad primary_font 200, FontLoad secondary_font 200]\<rparr>)"
    by (simp add: create_anie_icon_run [OF ok] font_size_512 font_trace_def font_chain_def
        run_loader_def loader_event_def only_secondary_def empty_world_def
        primary_font_def secondary_font_def)
  have n: "create_anie_icon no_fonts 512 empty_world =
     (Inr (rendered no_fonts 512),
      empty_world\<lparr>events :=
        [FontLoad primary_font 200, FontLoad secondary_font 200, FontDefault]\<rparr>)"
    by (simp add: create_anie_icon_run [OF ok] font_size_512 font_trace_def font_chain_def
        run_loader_def loader_event_def no_fonts_def empty_world_def)
  have la: "font_loads all_fonts primary_font 200"
    by (simp add: all_fonts_def)
  have ls: "\<not> font_loads only_secondary primary_font 200 \<and>
            font_loads only_secondary secondary_font 200"
    by (simp add: only_secondary_def primary_font_def secondary_font_def)
  have ln: "\<not> font_loads no_fonts primary_font 200 \<and> \<not> font_loads no_fonts secondary_font 200"
    by (simp add: no_fonts_def)
  from font_fallback_chain [OF a] la
  have ta: "text_fonts (im_ops (rendered all_fonts 512)) = replicate 4 (FreeTypeFont primary_font 200)"
    by (auto simp: font_size_512 numeral_eq_Suc)
  from font_fallback_chain [OF s] ls
  have ts: "text_fonts (im_ops (rendered only_secondary 512)) =
              replicate 4 (FreeTypeFont secondary_font 200)"
    by (auto simp: font_size_512 numeral_eq_Suc)
  from font_fallback_chain [OF n] ln
  have tn: "text_fonts (im_ops (rendered no_fonts 512)) = replicate 4 DefaultFont"
    by (auto simp: font_size_512 numeral_eq_Suc)
  from a s n ta ts tn show ?thesis by blast
qed

text \<open>
  C8: for every size, \<open>create_anie_icon\<close> leaves the directories, the files and the
  standard output as they were, and the events it adds contain no file system event.
\<close>

theorem no_disk_writes:
  "dirs (snd (create_anie_icon lib sz w)) = dirs w \<and>
   files (snd (create_anie_icon lib sz w)) = files w \<and>
   stdout (snd (create_anie_icon lib sz w)) = stdout w \<and>
   (\<exists>evs. events (snd (create_anie_icon lib sz w)) = events w @ evs \<and> fs_events evs = [])"
proof (cases "0 \<le> sz \<and> sz \<le> max_side")
  case True
  then show ?thesis
    by (simp add: create_anie_icon_world fs_events_font_trace)
next
  case False
  then have "sz < 0 \<or> max_side < sz"
    by auto
  then show ?thesis
    by (auto simp: create_anie_icon_neg create_anie_icon_big)
qed

theorem no_disk_writes_witness:
  "files (snd (create_anie_icon no_fonts 16 empty_world)) = [] \<and>
   dirs (snd (create_anie_icon no_fonts 16 empty_world)) = []"
  using no_disk_writes [of no_fonts 16 empty_world] by (simp add: empty_world_def)

subsection \<open>create\_icon\_set\<close>

lemma path_prefixes_icon_dir:
  "path_prefixes icon_dir = [''Assets.xcassets'', ''Assets.xcassets/AppIcon.appiconset'']"
  by (simp add: path_prefixes_def icon_dir_def)

lemma variant_sizes_eq: "variant_sizes = [16, 32, 32, 64, 128, 256, 256, 512, 512, 1024]"
  by (simp add: variant_sizes_def icon_sizes_def)

lemma makedirs_ready:
  assumes "list_all (\<lambda>p. is_dir w p \<or> \<not> is_file w p) (path_prefixes icon_dir)"
  shows "makedirs icon_dir w =
           (Inr (), w\<lparr>dirs := dirs w @ made_dirs w, events := events w @ map MakeDir (made_dirs w)\<rparr>)"
  using assms
  by (auto simp: makedirs_def made_dirs_def path_prefixes_icon_dir is_dir_def is_file_def)

lemma write_file_ok:
  assumes "is_dir w d" and "\<not> is_dir w (path_join d name)"
  shows "write_file d name f w =
           (Inr (), w\<lparr>files := AList.update (path_join d name) f (files w),
                       events := events w @ [WriteFile (path_join d name) f]\<rparr>)"
  using assms by (simp add: write_file_def Let_def)

lemma icon_step_ok:
  assumes "0 \<le> sz \<and> sz \<le> max_side" and "width \<noteq> 0" and "is_dir w icon_dir"
    and "\<not> is_dir w (icon_path sz)"
  shows "icon_step lib base width sz cts w =
           (Inr (cts\<lparr>images := images cts @ [entry base sz (py_str (sz div width) @ ''x'')]\<rparr>),
            w\<lparr>files := step_files lib sz (files w), events := events w @ step_events lib sz\<rparr>)"
proof -
  let ?w1 = "w\<lparr>events := events w @ font_trace lib (font_size sz)\<rparr>"
  have d: "is_dir ?w1 icon_dir" "\<not> is_dir ?w1 (path_join icon_dir (icon_filename sz))"
    using assms by (simp_all add: is_dir_def icon_path_def)
  show ?thesis
    using assms(2)
    by (simp add: icon_step_def Let_def create_anie_icon_run [OF assms(1)] write_file_ok [OF d]
        step_files_def step_events_def entry_def icon_path_def)
qed

lemma scales_loop_ok:
  assumes "width \<noteq> 0" and "is_dir w icon_dir"
    and "list_all (\<lambda>sz. (0 \<le> sz \<and> sz \<le> max_side) \<and> \<not> is_dir w (icon_path sz)) scales"
  shows "scales_loop lib base width scales cts w =
           (Inr (cts\<lparr>images := images cts @
                     map (\<lambda>sz. entry base sz (py_str (sz div width) @ ''x'')) scales\<rparr>),
            w\<lparr>files := fold (step_files lib) scales (files w),
               events := events w @ concat (map (step_events lib) scales)\<rparr>)"
  using assms(2,3)
proof (induction scales arbitrary: cts w)
  case Nil
  show ?case by simp
next
  case (Cons sz rest)
  let ?w1 = "w\<lparr>files := step_files lib sz (files w), events := events w @ step_events lib sz\<rparr>"
  let ?c1 = "cts\<lparr>images := images cts @ [entry base sz (py_str (sz div width) @ ''x'')]\<rparr>"
  from Cons.prems have sz: "0 \<le> sz \<and> sz \<le> max_side" "\<not> is_dir w (icon_path sz)"
    by simp_all
  have step: "icon_step lib base width sz cts w = (Inr ?c1, ?w1)"
    by (rule icon_step_ok [OF sz(1) assms(1) Cons.prems(1) sz(2)])
  have d1: "is_dir ?w1 icon_dir"
    using Cons.prems(1) by (simp add: is_dir_def)
  have r1: "list_all (\<lambda>sz. (0 \<le> sz \<and> sz \<le> max_side) \<and> \<not> is_dir ?w1 (icon_path sz)) rest"
    using Cons.prems(2) by (simp add: is_dir_def)
  show ?case
    by (simp add: step Cons.IH [OF d1 r1])
qed

lemma base_widths:
  "py_int_str ''16'' = Inr 16"
  "py_int_str ''32'' = Inr 32"
  "py_int_str ''128'' = Inr 128"
  "py_int_str ''256'' = Inr 256"
  "py_int_str ''512'' = Inr 512"
  by (simp_all add: py_int_str_def digit_val_def)

lemma scale_strings:
  "py_str 1 = ''1''" "py_str 2 = ''2''"
  by (simp_all add: py_str_def)

lemma sizes_loop_ok:
  assumes "is_dir w icon_dir"
    and "list_all (\<lambda>sz. \<not> is_dir w (icon_path sz)) variant_sizes"
  shows "sizes_loop lib icon_sizes cts w =
           (Inr (cts\<lparr>images := images cts @ images manifest\<rparr>),
            w\<lparr>files := fold (step_files lib) variant_sizes (files w),
               events := events w @ concat (map (step_events lib) variant_sizes)\<rparr>)"
  using assms
  by (simp add: icon_sizes_def variant_sizes_eq base_widths scales_loop_ok is_dir_def
      manifest_def scale_strings max_side_def int_max_def del: scales_loop.simps)

lemma joined_not_prefix: "path_join icon_dir name \<notin> set (path_prefixes icon_dir)"
  by (simp add: path_join_def icon_dir_def path_prefixes_def)

lemma made_dirs_subset: "set (made_dirs w) \<subseteq> set (path_prefixes icon_dir)"
  by (auto simp: made_dirs_def)

lemma joined_not_made: "path_join icon_dir name \<notin> set (made_dirs w)"
  using joined_not_prefix made_dirs_subset by blast

lemma icon_dir_made: "is_dir w icon_dir \<or> icon_dir \<in> set (made_dirs w)"
  unfolding made_dirs_def path_prefixes_icon_dir by (simp add: icon_dir_def)

lemma create_icon_set_run:
  assumes "fs_ready w"
  shows "create_icon_set lib w =
           (Inr (),
            w\<lparr>dirs := dirs w @ made_dirs w,
               files := run_files lib (files w),
               stdout := stdout w @ [''Icon set created successfully!''],
               events := events w @ map MakeDir (made_dirs w) @ run_events lib\<rparr>)"
proof -
  let ?w1 = "w\<lparr>dirs := dirs w @ made_dirs w, events := events w @ map MakeDir (made_dirs w)\<rparr>"
  let ?c0 = "\<lparr>images = [], info_author = ''xcode'', info_version = 1\<rparr>"
  let ?w2 = "?w1\<lparr>files := fold (step_files lib) variant_sizes (files ?w1),
               events := events ?w1 @ concat (map (step_events lib) variant_sizes)\<rparr>"
  from assms have pre: "list_all (\<lambda>p. is_dir w p \<or> \<not> is_file w p) (path_prefixes icon_dir)"
    and tg: "list_all (\<lambda>sz. \<not> is_dir w (icon_path sz)) variant_sizes"
    and cj: "\<not> is_dir w contents_path"
    by (simp_all add: fs_ready_def)
  have mk: "makedirs icon_dir w = (Inr (), ?w1)"
    by (rule makedirs_ready [OF pre])
  have d1: "is_dir ?w1 icon_dir"
    using icon_dir_made [of w] by (auto simp: is_dir_def)
  have t1: "list_all (\<lambda>sz. \<not> is_dir ?w1 (icon_path sz)) variant_sizes"
    using tg joined_not_made [of _ w] by (simp add: is_dir_def icon_path_def list_all_iff)
  have lp: "sizes_loop lib icon_sizes ?c0 ?w1 = (Inr manifest, ?w2)"
    using sizes_loop_ok [OF d1 t1, of lib ?c0] by (simp add: manifest_def)
  have d2: "is_dir ?w2 icon_dir"
    using d1 by (simp add: is_dir_def)
  have c2: "\<not> is_dir ?w2 (path_join icon_dir ''Contents.json'')"
    using cj joined_not_made [of "''Contents.json''" w] by (simp add: is_dir_def contents_path_def)
  note wr = write_file_ok [OF d2 c2, of "JsonFile manifest"]
  show ?thesis
    unfolding create_icon_set_def mk Let_def prod.case sum.case lp wr
    by (simp add: print_def run_files_def run_events_def contents_path_def)
qed

lemma icon_filenames:
  "icon_filename 16 = ''icon_16x16.png''"
  "icon_filename 32 = ''icon_32x32.png''"
  "icon_filename 64 = ''icon_64x64.png''"
  "icon_filename 128 = ''icon_128x128.png''"
  "icon_filename 256 = ''icon_256x256.png''"
  "icon_filename 512 = ''icon_512x512.png''"
  "icon_filename 1024 = ''icon_1024x1024.png''"
  by (simp_all add: icon_filename_def py_str_def)

lemma icon_paths:
  "icon_path 16 = ''Assets.xcassets/AppIcon.appiconset/icon_16x16.png''"
  "icon_path 32 = ''Assets.xcassets/AppIcon.appiconset/icon_32x32.png''"
  "icon_path 64 = ''Assets.xcassets/AppIcon.appiconset/icon_64x64.png''"
  "icon_path 128 = ''Assets.xcassets/AppIcon.appiconset/icon_128x128.png''"
  "icon_path 256 = ''Assets.xcassets/AppIcon.appiconset/icon_256x256.png''"
  "icon_path 512 = ''Assets.xcassets/AppIcon.appiconset/icon_512x512.png''"
  "icon_path 1024 = ''Assets.xcassets/AppIcon.appiconset/icon_1024x1024.png''"
  "contents_path = ''Assets.xcassets/AppIcon.appiconset/Contents.json''"
  by (simp_all add: icon_path_def contents_path_def path_join_def icon_dir_def icon_filenames)

lemma image_writes_append: "image_writes (xs @ ys) = image_writes xs @ image_writes ys"
  by (induction xs rule: image_writes.induct) simp_all

lemma writes_to_append: "writes_to p (xs @ ys) = writes_to p xs @ writes_to p ys"
  by (induction p xs rule: writes_to.induct) simp_all

lemma image_writes_font_trace: "image_writes (font_trace lib fs) = []"
  by (simp add: font_trace_def font_chain_def run_loader_def loader_event_def)

lemma writes_to_font_trace: "writes_to p (font_trace lib fs) = []"
  by (simp add: font_trace_def font_chain_def run_loader_def loader_event_def)

lemma image_writes_MakeDir: "image_writes (map MakeDir ps) = []"
  by (induction ps) simp_all

lemma writes_to_MakeDir: "writes_to p (map MakeDir ps) = []"
  by (induction ps) simp_all

lemma image_writes_run: "image_writes (run_events lib) = map icon_path variant_sizes"
  by (simp add: run_events_def variant_sizes_eq step_events_def image_writes_append
      image_writes_font_trace)

lemma writes_to_run:
  "writes_to p (run_events lib) =
     map (\<lambda>sz. PngFile (rendered lib sz)) (filter (\<lambda>sz. icon_path sz = p) variant_sizes) @
     (if contents_path = p then [JsonFile manifest] else [])"
  by (simp add: run_events_def variant_sizes_eq step_events_def writes_to_append
      writes_to_font_trace)

lemma map_of_run_files:
  "map_of (run_files lib fs) =
     (map_of fs)(icon_path 16 \<mapsto> PngFile (rendered lib 16),
       icon_path 32 \<mapsto> PngFile (rendered lib 32),
       icon_path 32 \<mapsto> PngFile (rendered lib 32),
       icon_path 64 \<mapsto> PngFile (rendered lib 64),
       icon_path 128 \<mapsto> PngFile (rendered lib 128),
       icon_path 256 \<mapsto> PngFile (rendered lib 256),
       icon_path 256 \<mapsto> PngFile (rendered lib 256),
       icon_path 512 \<mapsto> PngFile (rendered lib 512),
       icon_path 512 \<mapsto> PngFile (rendered lib 512),
       icon_path 1024 \<mapsto> PngFile (rendered lib 1024),
       contents_path \<mapsto> JsonFile manifest)"
  by (simp add: run_files_def variant_sizes_eq step_files_def update_conv')

lemma run_files_icon:
  "sz \<in> set variant_sizes \<Longrightarrow>
     map_of (run_files lib fs) (icon_path sz) = Some (PngFile (rendered lib sz))"
  unfolding map_of_run_files variant_sizes_eq
  by (auto simp: icon_paths)

lemma run_files_contents:
  "map_of (run_files lib fs) contents_path = Some (JsonFile manifest)"
  unfolding map_of_run_files by simp

lemma fold_step_files_triv:
  "\<forall>sz \<in> set szs. map_of fs (icon_path sz) = Some (PngFile (rendered lib sz)) \<Longrightarrow>
     fold (step_files lib) szs fs = fs"
  by (induction szs) (simp_all add: step_files_def update_triv)

lemma run_files_idem: "run_files lib (run_files lib fs) = run_files lib fs"
proof -
  have "fold (step_files lib) variant_sizes (run_files lib fs) = run_files lib fs"
    by (rule fold_step_files_triv) (simp add: run_files_icon)
  then show ?thesis
    by (subst (1) run_files_def) (simp add: update_triv run_files_contents)
qed

lemma fs_ready_empty: "fs_ready empty_world"
  by (simp add: fs_ready_def empty_world_def is_dir_def is_file_def path_prefixes_icon_dir
      variant_sizes_eq)

lemma manifest_rows:
  "map (\<lambda>e. (e_size e, e_filename e, e_scale e)) (images manifest) =
     [(''16x16'', ''icon_16x16.png'', ''1x''), (''16x16'', ''icon_32x32.png'', ''2x''),
      (''32x32'', ''icon_32x32.png'', ''1x''), (''32x32'', ''icon_64x64.png'', ''2x''),
      (''128x128'', ''icon_128x128.png'', ''1x''), (''128x128'', ''icon_256x256.png'', ''2x''),
      (''256x256'', ''icon_256x256.png'', ''1x''), (''256x256'', ''icon_512x512.png'', ''2x''),
      (''512x512'', ''icon_512x512.png'', ''1x''), (''512x512'', ''icon_1024x1024.png'', ''2x'')]"
  by (simp add: manifest_def entry_def icon_filenames)

lemma variants_eq:
  "variants =
     [(''16x16'', 16), (''16x16'', 32), (''32x32'', 32), (''32x32'', 64),
      (''128x128'', 128), (''128x128'', 256), (''256x256'', 256), (''256x256'', 512),
      (''512x512'', 512), (''512x512'', 1024)]"
  by (simp add: variants_def icon_sizes_def)

lemma manifest_table_order:
  "map (\<lambda>e. (e_size e, e_filename e)) (images manifest) =
     map (\<lambda>(base_size, sz). (base_size, icon_filename sz)) variants"
  by (simp add: manifest_def entry_def variants_eq)

lemma image_files_run_empty:
  "image_files (run_files lib []) =
     map icon_path [16, 32, 64, 128, 256, 512, 1024]"
  by (simp add: run_files_def variant_sizes_eq step_files_def icon_paths)

text \<open>
  C3, as stated, fails: a run in the empty file system leaves 7 image files on disk,
  not 10.
\<close>

theorem ten_image_files_counterexample:
  "length (image_files (files (snd (create_icon_set no_fonts empty_world)))) = 7 \<and>
   length (image_files (files (snd (create_icon_set no_fonts empty_world)))) \<noteq> 10"
  unfolding create_icon_set_run [OF fs_ready_empty]
  by (simp add: image_files_run_empty empty_world_def)

text \<open>
  C3, amended: a run over the fixed table of five size classes performs exactly 10 image
  writes and produces exactly 10 manifest records, in the order of the table (each size
  class in table order, its 1x density before its 2x density). The 10 writes go to 7
  distinct paths, so a run that starts without files leaves 7 image files on disk.
\<close>

theorem ten_writes_ten_records:
  assumes "fs_ready w"
  shows "\<exists>w' new cts.
           create_icon_set lib w = (Inr (), w') \<and>
           events w' = events w @ new \<and>
           image_writes new = map icon_path [16, 32, 32, 64, 128, 256, 256, 512, 512, 1024] \<and>
           length (image_writes new) = 10 \<and>
           length (remdups (image_writes new)) = 7 \<and>
           (files w = [] \<longrightarrow> length (image_files (files w')) = 7) \<and>
           map_of (files w') contents_path = Some (JsonFile cts) \<and>
           length (images cts) = 10 \<and>
           map (\<lambda>e. (e_size e, e_filename e)) (images cts) =
             map (\<lambda>(base_size, sz). (base_size, icon_filename sz)) variants \<and>
           map (\<lambda>e. (e_size e, e_filename e, e_scale e)) (images cts) =
             [(''16x16'', ''icon_16x16.png'', ''1x''), (''16x16'', ''icon_32x32.png'', ''2x''),
              (''32x32'', ''icon_32x32.png'', ''1x''), (''32x32'', ''icon_64x64.png'', ''2x''),
              (''128x128'', ''icon_128x128.png'', ''1x''),
              (''128x128'', ''icon_256x256.png'', ''2x''),
              (''256x256'', ''icon_256x256.png'', ''1x''),
              (''256x256'', ''icon_512x512.png'', ''2x''),
              (''512x512'', ''icon_512x512.png'', ''1x''),
              (''512x512'', ''icon_1024x1024.png'', ''2x'')]"
proof -
  let ?new = "map MakeDir (made_dirs w) @ run_events lib"
  let ?w' = "w\<lparr>dirs := dirs w @ made_dirs w, files := run_files lib (files w),
               stdout := stdout w @ [''Icon set created successfully!''],
               events := events w @ ?new\<rparr>"
  have run: "create_icon_set lib w = (Inr (), ?w')"
    by (rule create_icon_set_run [OF assms])
  have ev: "events ?w' = events w @ ?new"
    by simp
  have iw: "image_writes ?new = map icon_path [16, 32, 32, 64, 128, 256, 256, 512, 512, 1024]"
    by (simp add: image_writes_append image_writes_MakeDir image_writes_run variant_sizes_eq)
  have n10: "length (image_writes ?new) = 10"
    unfolding iw by simp
  have n7: "length (remdups (image_writes ?new)) = 7"
    unfolding iw by (simp add: icon_paths)
  have f7: "files w = [] \<longrightarrow> length (image_files (files ?w')) = 7"
    by (simp add: image_files_run_empty)
  have mf: "map_of (files ?w') contents_path = Some (JsonFile manifest)"
    by (simp add: run_files_contents)
  have l10: "length (images manifest) = 10"
    by (simp add: manifest_def)
  show ?thesis
    by (intro exI conjI)
      (rule run ev iw n10 n7 f7 mf l10 manifest_table_order manifest_rows)+
qed

theorem ten_writes_ten_records_witness:
  "fs_ready empty_world \<and>
   (\<exists>w' cts. create_icon_set no_fonts empty_world = (Inr (), w') \<and>
      length (image_files (files w')) = 7 \<and>
      map_of (files w') contents_path = Some (JsonFile cts) \<and> length (images cts) = 10)"
proof -
  have e: "files empty_world = []"
    by (simp add: empty_world_def)
  from ten_writes_ten_records [OF fs_ready_empty, of no_fonts] e fs_ready_empty
  show ?thesis by blast
qed

lemma manifest_scales:
  "list_all2
     (\<lambda>e (base_size, sz).
        e_size e = base_size \<and> e_filename e = icon_filename sz \<and>
        (\<exists>width. py_int_str (hd (split_on CHR ''x'' base_size)) = Inr width \<and>
           width dvd sz \<and> e_scale e = py_str (sz div width) @ ''x''))
     (images manifest) variants"
  by (simp add: manifest_def entry_def variants_eq base_widths scale_strings)

lemma manifest_32:
  "map (\<lambda>e. (e_filename e, e_scale e)) (filter (\<lambda>e. e_size e = ''32x32'') (images manifest)) =
     [(''icon_32x32.png'', ''1x''), (''icon_64x64.png'', ''2x'')]"
  by (simp add: manifest_def entry_def icon_filenames)

text \<open>
  C5: for every entry of the fixed table, the scale string of the manifest record is the
  pixel size divided by the base dimension of the size class, followed by \<open>x\<close>; the
  base dimension divides the pixel size. For the size class \<open>32x32\<close> the pixel size 32
  gives \<open>1x\<close> and 64 gives \<open>2x\<close>.
\<close>

theorem manifest_scale_strings:
  assumes "fs_ready w"
  shows "\<exists>w' cts.
           create_icon_set lib w = (Inr (), w') \<and>
           map_of (files w') contents_path = Some (JsonFile cts) \<and>
           list_all2
             (\<lambda>e (base_size, sz).
                e_size e = base_size \<and> e_filename e = icon_filename sz \<and>
                (\<exists>width. py_int_str (hd (split_on CHR ''x'' base_size)) = Inr width \<and>
                   width dvd sz \<and> e_scale e = py_str (sz div width) @ ''x''))
             (images cts) variants \<and>
           map (\<lambda>e. (e_filename e, e_scale e))
               (filter (\<lambda>e. e_size e = ''32x32'') (images cts)) =
             [(''icon_32x32.png'', ''1x''), (''icon_64x64.png'', ''2x'')]"
proof -
  let ?w' = "w\<lparr>dirs := dirs w @ made_dirs w, files := run_files lib (files w),
               stdout := stdout w @ [''Icon set created successfully!''],
               events := events w @ map MakeDir (made_dirs w) @ run_events lib\<rparr>"
  have run: "create_icon_set lib w = (Inr (), ?w')"
    by (rule create_icon_set_run [OF assms])
  have mf: "map_of (files ?w') contents_path = Some (JsonFile manifest)"
    by (simp add: run_files_contents)
  show ?thesis
    by (intro exI conjI) (rule run mf manifest_scales manifest_32)+
qed

theorem manifest_scale_strings_witness:
  "fs_ready empty_world \<and>
   (\<exists>w' cts. create_icon_set no_fonts empty_world = (Inr (), w') \<and>
      map_of (files w') contents_path = Some (JsonFile cts) \<and>
      map (\<lambda>e. (e_filename e, e_scale e)) (filter (\<lambda>e. e_size e = ''32x32'') (images cts)) =
        [(''icon_32x32.png'', ''1x''), (''icon_64x64.png'', ''2x'')])"
proof -
  from manifest_scale_strings [OF fs_ready_empty, of no_fonts]
  obtain w' where "\<exists>cts.
      create_icon_set no_fonts empty_world = (Inr (), w') \<and>
      map_of (files w') contents_path = Some (JsonFile cts) \<and>
      list_all2
        (\<lambda>e (base_size, sz).
           e_size e = base_size \<and> e_filename e = icon_filename sz \<and>
           (\<exists>width. py_int_str (hd (split_on CHR ''x'' base_size)) = Inr width \<and>
              width dvd sz \<and> e_scale e = py_str (sz div width) @ ''x''))
        (images cts) variants \<and>
      map (\<lambda>e. (e_filename e, e_scale e)) (filter (\<lambda>e. e_size e = ''32x32'') (images cts)) =
        [(''icon_32x32.png'', ''1x''), (''icon_64x64.png'', ''2x'')]" ..
  then obtain cts where r:
     "create_icon_set no_fonts empty_world = (Inr (), w') \<and>
      map_of (files w') contents_path = Some (JsonFile cts) \<and>
      list_all2
        (\<lambda>e (base_size, sz).
           e_size e = base_size \<and> e_filename e = icon_filename sz \<and>
           (\<exists>width. py_int_str (hd (split_on CHR ''x'' base_size)) = Inr width \<and>
              width dvd sz \<and> e_scale e = py_str (sz div width) @ ''x''))
        (images cts) variants \<and>
      map (\<lambda>e. (e_filename e, e_scale e)) (filter (\<lambda>e. e_size e = ''32x32'') (images cts)) =
        [(''icon_32x32.png'', ''1x''), (''icon_64x64.png'', ''2x'')]" ..
  note a = r [THEN conjunct1] and b = r [THEN conjunct2, THEN conjunct1]
    and c = r [THEN conjunct2, THEN conjunct2, THEN conjunct2]
  show ?thesis
    by (intro conjI exI) (rule fs_ready_empty a b c)+
qed

lemma made_dirs_after:
  "made_dirs (w\<lparr>dirs := dirs w @ made_dirs w, files := fs, stdout := out, events := evs\<rparr>) = []"
  by (auto simp: made_dirs_def is_dir_def filter_empty_conv)

lemma fs_ready_after:
  assumes "fs_ready w"
  shows "fs_ready (w\<lparr>dirs := dirs w @ made_dirs w, files := fs, stdout := out, events := evs\<rparr>)"
proof -
  let ?w1 = "w\<lparr>dirs := dirs w @ made_dirs w, files := fs, stdout := out, events := evs\<rparr>"
  have p: "list_all (\<lambda>p. is_dir ?w1 p \<or> \<not> is_file ?w1 p) (path_prefixes icon_dir)"
    by (auto simp: list_all_iff is_dir_def made_dirs_def)
  have t: "list_all (\<lambda>sz. \<not> is_dir ?w1 (icon_path sz)) variant_sizes"
    using assms joined_not_made [of _ w]
    by (simp add: fs_ready_def is_dir_def icon_path_def list_all_iff)
  have c: "\<not> is_dir ?w1 contents_path"
    using assms joined_not_made [of "''Contents.json''" w]
    by (simp add: fs_ready_def is_dir_def contents_path_def)
  from p t c show ?thesis
    by (simp add: fs_ready_def)
qed

lemma writes_to_new:
  "writes_to p (map MakeDir ds @ run_events lib) = writes_to p (run_events lib)"
  by (simp add: writes_to_append writes_to_MakeDir)

lemma run_writes_in_files:
  assumes "f \<in> set (writes_to p (run_events lib))"
  shows "map_of (run_files lib fs) p = Some f"
proof -
  from assms consider
    (img) sz where "sz \<in> set variant_sizes" "icon_path sz = p" "f = PngFile (rendered lib sz)"
  | (cts) "contents_path = p" "f = JsonFile manifest"
    unfolding writes_to_run by (auto split: if_splits)
  then show ?thesis
    by cases (auto simp: run_files_icon run_files_contents)
qed

lemma no_MakeDir_font_trace: "MakeDir d \<notin> set (font_trace lib fs)"
  by (simp add: font_trace_def font_chain_def run_loader_def loader_event_def)

lemma no_MakeDir_run: "MakeDir d \<notin> set (run_events lib)"
  by (simp add: run_events_def step_events_def variant_sizes_eq no_MakeDir_font_trace)

lemma contents_written_once: "writes_to contents_path (run_events lib) = [JsonFile manifest]"
  by (simp add: writes_to_run variant_sizes_eq icon_paths)


text \<open>
  C7: a second run, against the output directory the first run left, does not fail and
  creates no directory. With the same library (constants and font availability
  unchanged) it performs the 10 image writes and the manifest write again, and what it
  writes to each path is what the first run left there: files and directories after the
  second run are those after the first.
\<close>

theorem rerun_identical:
  assumes "fs_ready w"
  shows "\<exists>w1 w2 new1 new2 cts.
           create_icon_set lib w = (Inr (), w1) \<and>
           is_dir w1 icon_dir \<and>
           create_icon_set lib w1 = (Inr (), w2) \<and>
           dirs w2 = dirs w1 \<and>
           files w2 = files w1 \<and>
           events w1 = events w @ new1 \<and>
           events w2 = events w1 @ new2 \<and>
           (\<forall>p. writes_to p new2 = writes_to p new1) \<and>
           (\<forall>d. MakeDir d \<notin> set new2) \<and>
           image_writes new2 = map icon_path [16, 32, 32, 64, 128, 256, 256, 512, 512, 1024] \<and>
           length (image_writes new2) = 10 \<and>
           writes_to contents_path new2 = [JsonFile cts] \<and>
           length (images cts) = 10 \<and>
           (\<forall>p f. f \<in> set (writes_to p new2) \<longrightarrow>
              map_of (files w1) p = Some f \<and> map_of (files w2) p = Some f)"
proof -
  let ?msg = "''Icon set created successfully!''"
  let ?new1 = "map MakeDir (made_dirs w) @ run_events lib"
  let ?w1 = "w\<lparr>dirs := dirs w @ made_dirs w, files := run_files lib (files w),
               stdout := stdout w @ [?msg], events := events w @ ?new1\<rparr>"
  let ?new2 = "map MakeDir (made_dirs ?w1) @ run_events lib"
  let ?w2 = "?w1\<lparr>dirs := dirs ?w1 @ made_dirs ?w1, files := run_files lib (files ?w1),
               stdout := stdout ?w1 @ [?msg], events := events ?w1 @ ?new2\<rparr>"
  have r1: "create_icon_set lib w = (Inr (), ?w1)"
    by (rule create_icon_set_run [OF assms])
  have d1: "is_dir ?w1 icon_dir"
    using icon_dir_made [of w] by (auto simp: is_dir_def)
  have "fs_ready ?w1"
    by (rule fs_ready_after [OF assms])
  then have r2: "create_icon_set lib ?w1 = (Inr (), ?w2)"
    by (rule create_icon_set_run)
  have dd: "dirs ?w2 = dirs ?w1"
    by (simp add: made_dirs_after)
  have ff: "files ?w2 = files ?w1"
    by (simp add: run_files_idem)
  have e1: "events ?w1 = events w @ ?new1"
    by simp
  have e2: "events ?w2 = events ?w1 @ ?new2"
    by simp
  have wr: "\<forall>p. writes_to p ?new2 = writes_to p ?new1"
    by (simp only: writes_to_new) simp
  have n2: "?new2 = run_events lib"
    by (simp add: made_dirs_after)
  have mk: "\<forall>d. MakeDir d \<notin> set ?new2"
    unfolding n2 by (simp add: no_MakeDir_run)
  have iw: "image_writes ?new2 = map icon_path [16, 32, 32, 64, 128, 256, 256, 512, 512, 1024]"
    unfolding n2 by (simp add: image_writes_run variant_sizes_eq)
  have il: "length (image_writes ?new2) = 10"
    unfolding iw by simp
  have cw: "writes_to contents_path ?new2 = [JsonFile manifest]"
    unfolding n2 by (rule contents_written_once)
  have l10: "length (images manifest) = 10"
    by (simp add: manifest_def)
  have gen: "\<forall>p f. f \<in> set (writes_to p ?new2) \<longrightarrow>
               map_of (files ?w1) p = Some f \<and> map_of (files ?w2) p = Some f"
    unfolding n2 ff by (simp add: run_writes_in_files)
  show ?thesis
    by (intro exI conjI) (rule r1 d1 r2 dd ff e1 e2 wr mk iw il cw l10 gen)+
qed

theorem rerun_identical_witness:
  "fs_ready empty_world \<and>
   (\<exists>w1 w2 new2 cts.
      create_icon_set no_fonts empty_world = (Inr (), w1) \<and>
      create_icon_set no_fonts w1 = (Inr (), w2) \<and>
      dirs w2 = dirs w1 \<and> files w2 = files w1 \<and>
      events w2 = events w1 @ new2 \<and>
      length (image_writes new2) = 10 \<and>
      JsonFile cts \<in> set (writes_to contents_path new2) \<and>
      map_of (files w1) contents_path = Some (JsonFile cts) \<and>
      map_of (files w2) contents_path = Some (JsonFile cts))"
proof -
  from rerun_identical [OF fs_ready_empty, of no_fonts]
  obtain w1 w2 new1 new2 cts where
    r1: "create_icon_set no_fonts empty_world = (Inr (), w1)" and
    r2: "create_icon_set no_fonts w1 = (Inr (), w2)" and
    dd: "dirs w2 = dirs w1" and
    ff: "files w2 = files w1" and
    e2: "events w2 = events w1 @ new2" and
    il: "length (image_writes new2) = 10" and
    cw: "writes_to contents_path new2 = [JsonFile cts]" and
    gen: "\<forall>p f. f \<in> set (writes_to p new2) \<longrightarrow>
            map_of (files w1) p = Some f \<and> map_of (files w2) p = Some f"
    by blast
  from cw have m: "JsonFile cts \<in> set (writes_to contents_path new2)"
    by simp
  with gen have c: "map_of (files w1) contents_path = Some (JsonFile cts)"
    "map_of (files w2) contents_path = Some (JsonFile cts)"
    by blast+
  from fs_ready_empty r1 r2 dd ff e2 il m c show ?thesis
    by blast
qed

lemma manifest_filenames:
  "map e_filename (images manifest) = map icon_filename variant_sizes"
  by (simp add: manifest_def entry_def variant_sizes_eq)

lemma distinct_filenames:
  "remdups (map icon_filename variant_sizes) =
     [''icon_16x16.png'', ''icon_32x32.png'', ''icon_64x64.png'', ''icon_128x128.png'',
      ''icon_256x256.png'', ''icon_512x512.png'', ''icon_1024x1024.png'']"
  by (simp add: variant_sizes_eq icon_filenames)

lemma shared_records:
  "map (\<lambda>e. (e_size e, e_scale e))
       (filter (\<lambda>e. e_filename e = ''icon_32x32.png'') (images manifest)) =
     [(''16x16'', ''2x''), (''32x32'', ''1x'')]"
  "map (\<lambda>e. (e_size e, e_scale e))
       (filter (\<lambda>e. e_filename e = ''icon_256x256.png'') (images manifest)) =
     [(''128x128'', ''2x''), (''256x256'', ''1x'')]"
  "map (\<lambda>e. (e_size e, e_scale e))
       (filter (\<lambda>e. e_filename e = ''icon_512x512.png'') (images manifest)) =
     [(''256x256'', ''2x''), (''512x512'', ''1x'')]"
  by (simp_all add: manifest_def entry_def icon_filenames)

lemma writes_twice_each:
  "writes_to (icon_path 32) (run_events lib) =
     [PngFile (rendered lib 32), PngFile (rendered lib 32)]"
  "writes_to (icon_path 256) (run_events lib) =
     [PngFile (rendered lib 256), PngFile (rendered lib 256)]"
  "writes_to (icon_path 512) (run_events lib) =
     [PngFile (rendered lib 512), PngFile (rendered lib 512)]"
  by (simp_all add: writes_to_run variant_sizes_eq icon_paths)

lemma writes_once_each:
  "writes_to (icon_path 16) (run_events lib) = [PngFile (rendered lib 16)]"
  "writes_to (icon_path 64) (run_events lib) = [PngFile (rendered lib 64)]"
  "writes_to (icon_path 128) (run_events lib) = [PngFile (rendered lib 128)]"
  "writes_to (icon_path 1024) (run_events lib) = [PngFile (rendered lib 1024)]"
  by (simp_all add: writes_to_run variant_sizes_eq icon_paths)

lemma rendered_fst:
  "0 \<le> sz \<and> sz \<le> max_side \<Longrightarrow> fst (create_anie_icon lib sz w) = Inr (rendered lib sz)"
  by (simp add: create_anie_icon_run)

lemma run_files_icons:
  "map_of (run_files lib fs) (icon_path 16) = Some (PngFile (rendered lib 16))"
  "map_of (run_files lib fs) (icon_path 32) = Some (PngFile (rendered lib 32))"
  "map_of (run_files lib fs) (icon_path 64) = Some (PngFile (rendered lib 64))"
  "map_of (run_files lib fs) (icon_path 128) = Some (PngFile (rendered lib 128))"
  "map_of (run_files lib fs) (icon_path 256) = Some (PngFile (rendered lib 256))"
  "map_of (run_files lib fs) (icon_path 512) = Some (PngFile (rendered lib 512))"
  "map_of (run_files lib fs) (icon_path 1024) = Some (PngFile (rendered lib 1024))"
  by (simp_all add: run_files_icon variant_sizes_eq)

text \<open>
  C9: the file name of a variant depends only on its pixel size, so the 10 variants have 7
  distinct file names. The files for the pixel sizes 32, 256 and 512 are each written
  twice with the same image, which is the image on disk afterwards, and two distinct
  manifest records name each of them; the other four are written once.
\<close>

theorem shared_filenames:
  assumes "fs_ready w"
  shows "\<exists>w' new cts.
           create_icon_set lib w = (Inr (), w') \<and>
           events w' = events w @ new \<and>
           map_of (files w') contents_path = Some (JsonFile cts) \<and>
           map e_filename (images cts) = map icon_filename variant_sizes \<and>
           length (images cts) = 10 \<and>
           remdups (map e_filename (images cts)) =
             [''icon_16x16.png'', ''icon_32x32.png'', ''icon_64x64.png'', ''icon_128x128.png'',
              ''icon_256x256.png'', ''icon_512x512.png'', ''icon_1024x1024.png''] \<and>
           (\<forall>sz \<in> set [32, 256, 512].
              \<exists>img. fst (create_anie_icon lib sz w) = Inr img \<and>
                writes_to (icon_path sz) new = [PngFile img, PngFile img] \<and>
                map_of (files w') (icon_path sz) = Some (PngFile img)) \<and>
           (\<forall>sz \<in> set [16, 64, 128, 1024].
              \<exists>img. fst (create_anie_icon lib sz w) = Inr img \<and>
                writes_to (icon_path sz) new = [PngFile img] \<and>
                map_of (files w') (icon_path sz) = Some (PngFile img)) \<and>
           map (\<lambda>e. (e_size e, e_scale e))
               (filter (\<lambda>e. e_filename e = ''icon_32x32.png'') (images cts)) =
             [(''16x16'', ''2x''), (''32x32'', ''1x'')] \<and>
           map (\<lambda>e. (e_size e, e_scale e))
               (filter (\<lambda>e. e_filename e = ''icon_256x256.png'') (images cts)) =
             [(''128x128'', ''2x''), (''256x256'', ''1x'')] \<and>
           map (\<lambda>e. (e_size e, e_scale e))
               (filter (\<lambda>e. e_filename e = ''icon_512x512.png'') (images cts)) =
             [(''256x256'', ''2x''), (''512x512'', ''1x'')]"
proof -
  let ?new = "map MakeDir (made_dirs w) @ run_events lib"
  let ?w' = "w\<lparr>dirs := dirs w @ made_dirs w, files := run_files lib (files w),
               stdout := stdout w @ [''Icon set created successfully!''],
               events := events w @ ?new\<rparr>"
  have run: "create_icon_set lib w = (Inr (), ?w')"
    by (rule create_icon_set_run [OF assms])
  have ev: "events ?w' = events w @ ?new"
    by simp
  have mf: "map_of (files ?w') contents_path = Some (JsonFile manifest)"
    by (simp add: run_files_contents)
  have l10: "length (images manifest) = 10"
    by (simp add: manifest_def)
  have dn: "remdups (map e_filename (images manifest)) =
             [''icon_16x16.png'', ''icon_32x32.png'', ''icon_64x64.png'', ''icon_128x128.png'',
              ''icon_256x256.png'', ''icon_512x512.png'', ''icon_1024x1024.png'']"
    unfolding manifest_filenames by (rule distinct_filenames)
  have tw: "\<forall>sz \<in> set [32, 256, 512].
              \<exists>img. fst (create_anie_icon lib sz w) = Inr img \<and>
                writes_to (icon_path sz) ?new = [PngFile img, PngFile img] \<and>
                map_of (files ?w') (icon_path sz) = Some (PngFile img)"
    by (simp add: rendered_fst max_side_def int_max_def writes_to_new writes_twice_each run_files_icons)
  have on: "\<forall>sz \<in> set [16, 64, 128, 1024].
              \<exists>img. fst (create_anie_icon lib sz w) = Inr img \<and>
                writes_to (icon_path sz) ?new = [PngFile img] \<and>
                map_of (files ?w') (icon_path sz) = Some (PngFile img)"
    by (simp add: rendered_fst max_side_def int_max_def writes_to_new writes_once_each run_files_icons)
  have s1: "map (\<lambda>e. (e_size e, e_scale e))
               (filter (\<lambda>e. e_filename e = ''icon_32x32.png'') (images manifest)) =
             [(''16x16'', ''2x''), (''32x32'', ''1x'')]"
    by (rule shared_records)
  have s2: "map (\<lambda>e. (e_size e, e_scale e))
               (filter (\<lambda>e. e_filename e = ''icon_256x256.png'') (images manifest)) =
             [(''128x128'', ''2x''), (''256x256'', ''1x'')]"
    by (rule shared_records)
  have s3: "map (\<lambda>e. (e_size e, e_scale e))
               (filter (\<lambda>e. e_filename e = ''icon_512x512.png'') (images manifest)) =
             [(''256x256'', ''2x''), (''512x512'', ''1x'')]"
    by (rule shared_records)
  have "create_icon_set lib w = (Inr (), ?w') \<and>
           events ?w' = events w @ ?new \<and>
           map_of (files ?w') contents_path = Some (JsonFile manifest) \<and>
           map e_filename (images manifest) = map icon_filename variant_sizes \<and>
           length (images manifest) = 10 \<and>
           remdups (map e_filename (images manifest)) =
             [''icon_16x16.png'', ''icon_32x32.png'', ''icon_64x64.png'', ''icon_128x128.png'',
              ''icon_256x256.png'', ''icon_512x512.png'', ''icon_1024x1024.png''] \<and>
           (\<forall>sz \<in> set [32, 256, 512].
              \<exists>img. fst (create_anie_icon lib sz w) = Inr img \<and>
                writes_to (icon_path sz) ?new = [PngFile img, PngFile img] \<and>
                map_of (files ?w') (icon_path sz) = Some (PngFile img)) \<and>
           (\<forall>sz \<in> set [16, 64, 128, 1024].
              \<exists>img. fst (create_anie_icon lib sz w) = Inr img \<and>
                writes_to (icon_path sz) ?new = [PngFile img] \<and>
                map_of (files ?w') (icon_path sz) = Some (PngFile img)) \<and>
           map (\<lambda>e. (e_size e, e_scale e))
               (filter (\<lambda>e. e_filename e = ''icon_32x32.png'') (images manifest)) =
             [(''16x16'', ''2x''), (''32x32'', ''1x'')] \<and>
           map (\<lambda>e. (e_size e, e_scale e))
               (filter (\<lambda>e. e_filename e = ''icon_256x256.png'') (images manifest)) =
             [(''128x128'', ''2x''), (''256x256'', ''1x'')] \<and>
           map (\<lambda>e. (e_size e, e_scale e))
               (filter (\<lambda>e. e_filename e = ''icon_512x512.png'') (images manifest)) =
             [(''256x256'', ''2x''), (''512x512'', ''1x'')]"
    using run ev mf manifest_filenames l10 dn tw on s1 s2 s3 by (intro conjI)
  then show ?thesis
    by (intro exI)
qed

theorem shared_filenames_witness:
  "fs_ready empty_world \<and>
   (\<exists>w' cts. create_icon_set no_fonts empty_world = (Inr (), w') \<and>
      map_of (files w') contents_path = Some (JsonFile cts) \<and>
      remdups (map e_filename (images cts)) =
        [''icon_16x16.png'', ''icon_32x32.png'', ''icon_64x64.png'', ''icon_128x128.png'',
         ''icon_256x256.png'', ''icon_512x512.png'', ''icon_1024x1024.png''] \<and>
      map (\<lambda>e. (e_size e, e_scale e))
          (filter (\<lambda>e. e_filename e = ''icon_32x32.png'') (images cts)) =
        [(''16x16'', ''2x''), (''32x32'', ''1x'')])"
  using shared_filenames [OF fs_ready_empty, of no_fonts] fs_ready_empty
  apply (elim exE conjE)
  apply (intro conjI exI)
      apply assumption+
  done

end
